theory Spec2Isabelle
  imports Complex_Main
begin

section \<open>bet-strategy.module.js: data\<close>

text \<open>
  The module works on JavaScript numbers and on ethers BigNumbers. Both are kept as
  one type \<open>'n\<close> of which only the operations the module itself applies are used:
  the literal \<open>0\<close>, \<open>*\<close> and \<open>-\<close>. No law of arithmetic is assumed of them, so
  every general statement below also holds when \<open>*\<close> and \<open>-\<close> round as IEEE doubles do.

  A rejected promise or a thrown exception is a value \<open>Inl e\<close>.
\<close>

datatype error = Rejected string

text \<open>
  The receipt handed back by \<open>betDown\<close>/\<open>betUp\<close>, as the JSDoc of
  \<open>parseTransactionReceipt\<close> gives it:
  \<^verbatim>\<open>{ status: Number, gasUsed: Number, effectiveGasPrice: Number, transactionExeption: Boolean }\<close>.
  A property the object does not have reads as \<open>undefined\<close>, here \<open>None\<close>. The source
  spells the flag \<open>transactionExeption\<close>; it is the flag the specification calls
  \<open>transactionException\<close>.
\<close>

record 'n txReceipt =
  status :: int
  gasUsed :: "'n option"
  effectiveGasPrice :: "'n option"
  transactionExeption :: "bool option"

text \<open>The result of \<open>parseTransactionReceipt\<close>: \<^verbatim>\<open>{ betExecuted: Boolean; txGasFee: number; }\<close>.\<close>

record 'n transaction =
  betExecuted :: bool
  txGasFee :: 'n

text \<open>JavaScript truthiness of a property that holds a Boolean or is absent.\<close>

fun truthy :: "bool option \<Rightarrow> bool" where
  "truthy None = False"
| "truthy (Some b) = b"

section \<open>parseTransactionReceipt\<close>

text \<open>
  \<open>formatUnit\<close> lives in \<open>common/utils.module\<close>, which is not part of the sources at hand:
  it is a parameter. Its first argument is the value passed (\<open>None\<close> for \<open>undefined\<close>), its
  second the unit, \<open>None\<close> where the call passes one argument only. It may throw, and
  what it throws leaves \<open>parseTransactionReceipt\<close> uncaught. A local constant of the
  source whose name is that of a record field carries a prime in the model.

  \<^verbatim>\<open>
  const parseTransactionReceipt = (txReceipt) => {
      const betExecuted = txReceipt.status === 1;
      if (txReceipt.transactionExeption) {
          return { betExecuted: betExecuted, txGasFee: 0 };
      } else {
          const gasUsed = formatUnit(txReceipt.gasUsed);
          const effectiveGasPrice = formatUnit(txReceipt.effectiveGasPrice);
          const txGasFee = formatUnit(gasUsed * effectiveGasPrice, "18");
          return { betExecuted: txReceipt.status === 1, txGasFee: txGasFee };
      }
  }
  \<close>
\<close>

type_synonym 'n formatter = "'n option \<Rightarrow> string option \<Rightarrow> error + 'n"

definition parseTransactionReceipt ::
  "('n::{zero,times}) formatter \<Rightarrow> 'n txReceipt \<Rightarrow> error + 'n transaction" where
  "parseTransactionReceipt formatUnit txReceipt =
     (let betExecuted' = (status txReceipt = 1) in
      if truthy (transactionExeption txReceipt) then
        Inr \<lparr>betExecuted = betExecuted', txGasFee = 0\<rparr>
      else
        (case formatUnit (gasUsed txReceipt) None of
           Inl e \<Rightarrow> Inl e
         | Inr gasUsed' \<Rightarrow>
        (case formatUnit (effectiveGasPrice txReceipt) None of
           Inl e \<Rightarrow> Inl e
         | Inr effectiveGasPrice' \<Rightarrow>
        (case formatUnit (Some (gasUsed' * effectiveGasPrice')) (Some ''18'') of
           Inl e \<Rightarrow> Inl e
         | Inr txGasFee' \<Rightarrow>
             Inr \<lparr>betExecuted = (status txReceipt = 1), txGasFee = txGasFee'\<rparr>))))"

section \<open>The collaborators of the strategies\<close>

text \<open>
  Modelled from the spec: the constants \<open>BET_DOWN\<close> and \<open>BET_UP\<close> of
  \<open>common/constants/bot.constants\<close>, which is not part of the sources at hand. The
  specification gives the \<open>bet\<close> field of a history row the two tags \<open>BET_UP|BET_DOWN\<close>.
\<close>

datatype betDirection = BET_DOWN | BET_UP

text \<open>
  The row handed to \<open>saveRoundInHistory\<close>:
  \<^verbatim>\<open>{ round: formatUnit(epoch), betAmount: cryptoBetAmount, bet: BET_DOWN,
    betExecuted: transaction.betExecuted, txGasFee: transaction.txGasFee }\<close>.
\<close>

record 'n betRecord =
  round :: 'n
  betAmount :: 'n
  bet :: betDirection
  betExecuted :: bool
  txGasFee :: 'n

text \<open>
  What \<open>claimStrategy\<close> returns, by its JSDoc
  \<^verbatim>\<open>{ status: Number, txGasFee: Number, transactionExeption: Boolean }\<close>; the object
  literal of its \<open>else\<close> branch has no \<open>transactionExeption\<close> property.
\<close>

record 'n claimTransaction =
  status :: int
  txGasFee :: 'n
  transactionExeption :: "bool option"

text \<open>
  The functions the module imports. None of their sources is at hand, so each is a
  parameter: the synchronous helpers of \<open>utils.module\<close> as functions, the asynchronous
  ones of the contract and history modules as functions to the value their promise
  resolves to (\<open>Inr\<close>) or is rejected with (\<open>Inl\<close>). \<open>getBetAmount\<close> takes no argument.
\<close>

record 'n modules =
  getBetAmount :: 'n
  parseFromUsdToCrypto :: "'n \<Rightarrow> 'n"
  parseFeeFromCryptoToUsd :: "'n \<Rightarrow> 'n"
  formatUnit :: "'n formatter"
  betDown :: "'n \<Rightarrow> 'n \<Rightarrow> error + 'n txReceipt"
  betUp :: "'n \<Rightarrow> 'n \<Rightarrow> error + 'n txReceipt"
  isClaimableRound :: "'n \<Rightarrow> error + bool"
  claimRewards :: "'n list \<Rightarrow> error + 'n claimTransaction"
  saveRoundInHistory :: "'n betRecord list \<Rightarrow> error + unit"

text \<open>
  Every call that leaves the module towards the contract, the history or the wallet is
  recorded, in order, with its arguments.
\<close>

datatype 'n call =
    BetDown 'n 'n
  | BetUp 'n 'n
  | IsClaimableRound 'n
  | ClaimRewards "'n list"
  | SaveRoundInHistory "'n betRecord list"
  | GetSimulationBalance
  | UpdateSimulationBalance 'n

text \<open>
  The state one invocation runs in: the two flags of \<open>GLOBAL_CONFIG\<close> the module
  reads, the fictitious balance kept by the wallet module, and the calls made so far.
  One invocation is followed from its start to its end; what other tasks do while it
  is suspended at an \<open>await\<close> is outside the model, and the collaborators above do not
  write the flags or the balance.
\<close>

record 'n bot =
  SIMULATION_MODE :: bool
  CLAIM_REWARDS :: bool
  simulationBalance :: 'n
  calls :: "'n call list"

type_synonym ('n, 'a) task = "'n bot \<Rightarrow> (error + 'a) \<times> 'n bot"

definition resolve :: "'a \<Rightarrow> ('n, 'a) task" where
  "resolve a w = (Inr a, w)"

definition andThen :: "('n, 'a) task \<Rightarrow> ('a \<Rightarrow> ('n, 'b) task) \<Rightarrow> ('n, 'b) task" where
  "andThen t k w = (case t w of (Inl e, w') \<Rightarrow> (Inl e, w') | (Inr a, w') \<Rightarrow> k a w')"

text \<open>A synchronous helper that may throw: no call is recorded.\<close>

definition sync :: "error + 'a \<Rightarrow> ('n, 'a) task" where
  "sync r w = (r, w)"

text \<open>A call of a collaborator: it is recorded, then it resolves or rejects.\<close>

definition invoke :: "'n call \<Rightarrow> error + 'a \<Rightarrow> ('n, 'a) task" where
  "invoke c r w = (r, w\<lparr>calls := calls w @ [c]\<rparr>)"

text \<open>
  Modelled from the spec: \<open>getSimulationBalance\<close> and \<open>updateSimulationBalance\<close> of
  \<open>wallet/wallet.module\<close>, which is not part of the sources at hand. The specification
  has them as \<open>getBalance() -> number\<close> and \<open>setBalance(number) -> void\<close>, synchronous
  and process-local, on a single mutable ledger value.
\<close>

definition getSimulationBalance :: "('n, 'n) task" where
  "getSimulationBalance w = (Inr (simulationBalance w), w\<lparr>calls := calls w @ [GetSimulationBalance]\<rparr>)"

definition updateSimulationBalance :: "'n \<Rightarrow> ('n, unit) task" where
  "updateSimulationBalance v w =
     (Inr (), w\<lparr>simulationBalance := v, calls := calls w @ [UpdateSimulationBalance v]\<rparr>)"

section \<open>betDownStrategy, betUpStrategy\<close>

text \<open>
  \<^verbatim>\<open>
  const betDownStrategy = async (epoch) => {
      const cryptoBetAmount = parseFromUsdToCrypto(getBetAmount());
      const transaction = parseTransactionReceipt(await betDown(cryptoBetAmount, epoch));
      if (GLOBAL_CONFIG.SIMULATION_MODE) {
          updateSimulationBalance(getSimulationBalance() - getBetAmount()
                                    - parseFeeFromCryptoToUsd(transaction.txGasFee));
      }
      await saveRoundInHistory([{ round: formatUnit(epoch), betAmount: cryptoBetAmount,
          bet: BET_DOWN, betExecuted: transaction.betExecuted, txGasFee: transaction.txGasFee }]);
      return transaction.betExecuted;
  }
  \<close>
  \<open>betUpStrategy\<close> is the same text with \<open>betUp\<close> and \<open>BET_UP\<close>.
\<close>

definition betDownStrategy :: "('n::{zero,times,minus}) modules \<Rightarrow> 'n \<Rightarrow> ('n, bool) task" where
  "betDownStrategy m epoch =
     (let cryptoBetAmount = parseFromUsdToCrypto m (getBetAmount m) in
      andThen (invoke (BetDown cryptoBetAmount epoch) (betDown m cryptoBetAmount epoch)) (\<lambda>receipt.
      andThen (sync (parseTransactionReceipt (formatUnit m) receipt)) (\<lambda>transaction.
      andThen (\<lambda>w. if SIMULATION_MODE w then
                 andThen getSimulationBalance (\<lambda>balance.
                   updateSimulationBalance
                     (balance - getBetAmount m
                        - parseFeeFromCryptoToUsd m (transaction.txGasFee transaction))) w
               else resolve () w) (\<lambda>_.
      andThen (sync (formatUnit m (Some epoch) None)) (\<lambda>round'.
      andThen (invoke
                 (SaveRoundInHistory
                    [\<lparr>round = round', betAmount = cryptoBetAmount, bet = BET_DOWN,
                      betExecuted = transaction.betExecuted transaction,
                      txGasFee = transaction.txGasFee transaction\<rparr>])
                 (saveRoundInHistory m
                    [\<lparr>round = round', betAmount = cryptoBetAmount, bet = BET_DOWN,
                      betExecuted = transaction.betExecuted transaction,
                      txGasFee = transaction.txGasFee transaction\<rparr>])) (\<lambda>_.
      resolve (transaction.betExecuted transaction)))))))"

definition betUpStrategy :: "('n::{zero,times,minus}) modules \<Rightarrow> 'n \<Rightarrow> ('n, bool) task" where
  "betUpStrategy m epoch =
     (let cryptoBetAmount = parseFromUsdToCrypto m (getBetAmount m) in
      andThen (invoke (BetUp cryptoBetAmount epoch) (betUp m cryptoBetAmount epoch)) (\<lambda>receipt.
      andThen (sync (parseTransactionReceipt (formatUnit m) receipt)) (\<lambda>transaction.
      andThen (\<lambda>w. if SIMULATION_MODE w then
                 andThen getSimulationBalance (\<lambda>balance.
                   updateSimulationBalance
                     (balance - getBetAmount m
                        - parseFeeFromCryptoToUsd m (transaction.txGasFee transaction))) w
               else resolve () w) (\<lambda>_.
      andThen (sync (formatUnit m (Some epoch) None)) (\<lambda>round'.
      andThen (invoke
                 (SaveRoundInHistory
                    [\<lparr>round = round', betAmount = cryptoBetAmount, bet = BET_UP,
                      betExecuted = transaction.betExecuted transaction,
                      txGasFee = transaction.txGasFee transaction\<rparr>])
                 (saveRoundInHistory m
                    [\<lparr>round = round', betAmount = cryptoBetAmount, bet = BET_UP,
                      betExecuted = transaction.betExecuted transaction,
                      txGasFee = transaction.txGasFee transaction\<rparr>])) (\<lambda>_.
      resolve (transaction.betExecuted transaction)))))))"

section \<open>claimStrategy\<close>

text \<open>
  \<^verbatim>\<open>
  const claimStrategy = async (epoch) => {
      if(GLOBAL_CONFIG.CLAIM_REWARDS && await isClaimableRound(epoch)) {
          return await claimRewards([epoch]);
      } else {
          return { status: 0, txGasFee: 0};
      }
  }
  \<close>
  \<open>&&\<close> evaluates its right operand only when the left one is truthy.
\<close>

definition claimStrategy :: "('n::zero) modules \<Rightarrow> 'n \<Rightarrow> ('n, 'n claimTransaction) task" where
  "claimStrategy m epoch =
     andThen (\<lambda>w. if CLAIM_REWARDS w
                   then invoke (IsClaimableRound epoch) (isClaimableRound m epoch) w
                   else resolve False w) (\<lambda>claimable.
       if claimable then
         invoke (ClaimRewards [epoch]) (claimRewards m [epoch])
       else
         resolve \<lparr>status = 0, txGasFee = 0, transactionExeption = None\<rparr>)"

section \<open>Vocabulary of the properties\<close>

text \<open>
  The two bet strategies, their contract functions and the calls these are recorded
  as, indexed by the direction, so that a property of both is stated once.
\<close>

fun betStrategy :: "betDirection \<Rightarrow> ('n::{zero,times,minus}) modules \<Rightarrow> 'n \<Rightarrow> ('n, bool) task" where
  "betStrategy BET_DOWN = betDownStrategy"
| "betStrategy BET_UP = betUpStrategy"

fun placeBet :: "betDirection \<Rightarrow> 'n modules \<Rightarrow> 'n \<Rightarrow> 'n \<Rightarrow> error + 'n txReceipt" where
  "placeBet BET_DOWN m = betDown m"
| "placeBet BET_UP m = betUp m"

fun placeBetCall :: "betDirection \<Rightarrow> 'n \<Rightarrow> 'n \<Rightarrow> 'n call" where
  "placeBetCall BET_DOWN amount epoch = BetDown amount epoch"
| "placeBetCall BET_UP amount epoch = BetUp amount epoch"

text \<open>The calls an invocation added, given the state before it and the state after it.\<close>

definition newCalls :: "'n bot \<Rightarrow> 'n bot \<Rightarrow> 'n call list" where
  "newCalls w w' = drop (length (calls w)) (calls w')"

fun ledgerCall :: "'n call \<Rightarrow> bool" where
  "ledgerCall GetSimulationBalance = True"
| "ledgerCall (UpdateSimulationBalance v) = True"
| "ledgerCall c = False"

fun historyCall :: "'n call \<Rightarrow> bool" where
  "historyCall (SaveRoundInHistory rows) = True"
| "historyCall c = False"

fun claimCall :: "'n call \<Rightarrow> bool" where
  "claimCall (ClaimRewards epochs) = True"
| "claimCall c = False"

text \<open>
  The same call in the other direction: \<open>betDown\<close> becomes \<open>betUp\<close> and the \<open>bet\<close>
  field of a saved row becomes \<open>BET_UP\<close>; everything else is kept.
\<close>

fun towardsUp :: "'n call \<Rightarrow> 'n call" where
  "towardsUp (BetDown amount epoch) = BetUp amount epoch"
| "towardsUp (SaveRoundInHistory rows) = SaveRoundInHistory (map (\<lambda>r. r\<lparr>bet := BET_UP\<rparr>) rows)"
| "towardsUp c = c"

fun towardsDown :: "'n call \<Rightarrow> 'n call" where
  "towardsDown (BetUp amount epoch) = BetDown amount epoch"
| "towardsDown (SaveRoundInHistory rows) = SaveRoundInHistory (map (\<lambda>r. r\<lparr>bet := BET_DOWN\<rparr>) rows)"
| "towardsDown c = c"



section \<open>A unit formatter after the specification\<close>

text \<open>
  Modelled from the spec: \<open>formatUnit\<close> of \<open>common/utils.module\<close>, which is not part
  of the sources at hand. The specification has it as
  \<open>format(rawBaseUnitValue, decimals=18) -> decimalNumber\<close>, pure and synchronous, taking a
  raw base-unit value to a human-scale decimal number: the value is divided by ten to
  the power \<open>decimals\<close>. The unit reaches it as a string of digits (\<open>"18"\<close>). The number
  of decimals of a call that passes no unit is the parameter \<open>dflt\<close>, which the
  specification gives as 18. Numbers are exact rationals here, where JavaScript rounds
  to doubles.
\<close>

definition digit :: "char \<Rightarrow> nat option" where
  "digit c = map_of [(CHR ''0'', 0), (CHR ''1'', 1), (CHR ''2'', 2), (CHR ''3'', 3), (CHR ''4'', 4),
                     (CHR ''5'', 5), (CHR ''6'', 6), (CHR ''7'', 7), (CHR ''8'', 8), (CHR ''9'', 9)] c"

fun digits :: "nat \<Rightarrow> string \<Rightarrow> nat option" where
  "digits acc [] = Some acc"
| "digits acc (c # cs) = (case digit c of None \<Rightarrow> None | Some d \<Rightarrow> digits (10 * acc + d) cs)"

definition decimalsOf :: "nat \<Rightarrow> string option \<Rightarrow> nat option" where
  "decimalsOf dflt unit =
     (case unit of None \<Rightarrow> Some dflt | Some u \<Rightarrow> if u = [] then None else digits 0 u)"

definition specFormatUnit :: "nat \<Rightarrow> rat formatter" where
  "specFormatUnit dflt v unit =
     (case v of
        None \<Rightarrow> Inl (Rejected ''invalid value'')
      | Some x \<Rightarrow>
          (case decimalsOf dflt unit of
             None \<Rightarrow> Inl (Rejected ''invalid unit'')
           | Some d \<Rightarrow> Inr (x / 10 ^ d)))"

text \<open>
  The receipt of the specification's example:
  \<^verbatim>\<open>{status:1, gasUsed:21000, effectiveGasPrice:5e9, transactionException:false}\<close>.
\<close>

definition exampleReceipt :: "rat txReceipt" where
  "exampleReceipt =
     \<lparr>txReceipt.status = 1, gasUsed = Some 21000, effectiveGasPrice = Some 5000000000,
      txReceipt.transactionExeption = Some False\<rparr>"

text \<open>
  A formatter is near the one above, within \<open>eps\<close>, when on every defined value it
  returns, with no unit and with unit \<open>"18"\<close>, a number whose distance to the exact
  quotient is at most \<open>eps\<close> times that quotient. The roundings of a formatter that
  computes in doubles are within such a bound; so is the rounding of the product
  handed to it, which is that of a formatter that rounds its argument first, the two
  gas fields of the example being whole numbers that a double holds exactly.
\<close>

definition nearFormatter :: "rat \<Rightarrow> nat \<Rightarrow> rat formatter \<Rightarrow> bool" where
  "nearFormatter eps dflt fu =
     (\<forall>x. (\<exists>y. fu (Some x) None = Inr y \<and> \<bar>y - x / 10 ^ dflt\<bar> \<le> eps * \<bar>x / 10 ^ dflt\<bar>)
        \<and> (\<exists>y. fu (Some x) (Some ''18'') = Inr y \<and> \<bar>y - x / 10 ^ 18\<bar> \<le> eps * \<bar>x / 10 ^ 18\<bar>))"

text \<open>
  A formatter with 18 decimals by default that returns one part in a thousand more
  than the exact quotient, and a formatter that throws on every value.
\<close>

definition skewedFormatUnit :: "rat formatter" where
  "skewedFormatUnit v unit =
     (case specFormatUnit 18 v unit of Inl e \<Rightarrow> Inl e | Inr y \<Rightarrow> Inr (y * (1001 / 1000)))"

definition rejectingFormatUnit :: "rat formatter" where
  "rejectingFormatUnit v unit = Inl (Rejected ''invalid value'')"

text \<open>A receipt of the exception shape: \<^verbatim>\<open>{status: 0, transactionExeption: true}\<close>.\<close>

definition exceptionReceipt :: "rat txReceipt" where
  "exceptionReceipt =
     \<lparr>txReceipt.status = 0, gasUsed = None, effectiveGasPrice = None,
      txReceipt.transactionExeption = Some True\<rparr>"

section \<open>A concrete bot\<close>

text \<open>
  Collaborators and a starting state on which the properties below are exercised: a
  bet amount of 10 dollars, a price of 300 dollars per coin, the formatter above
  keeping the raw scale where no unit is passed, a \<open>betDown\<close> that resolves to the
  example receipt and a \<open>betUp\<close> that resolves to the same receipt with \<open>status\<close> 0,
  round 7 the only claimable one.
\<close>

definition exampleModules :: "rat modules" where
  "exampleModules =
     \<lparr>getBetAmount = 10,
      parseFromUsdToCrypto = (\<lambda>usd. usd / 300),
      parseFeeFromCryptoToUsd = (\<lambda>fee. fee * 300),
      formatUnit = specFormatUnit 0,
      betDown = (\<lambda>amount epoch. Inr exampleReceipt),
      betUp = (\<lambda>amount epoch. Inr (exampleReceipt\<lparr>txReceipt.status := 0\<rparr>)),
      isClaimableRound = (\<lambda>epoch. Inr (epoch = 7)),
      claimRewards = (\<lambda>epochs. Inr \<lparr>status = 1, txGasFee = 1 / 1000, transactionExeption = Some False\<rparr>),
      saveRoundInHistory = (\<lambda>rows. Inr ())\<rparr>"

definition exampleBot :: "rat bot" where
  "exampleBot = \<lparr>SIMULATION_MODE = True, CLAIM_REWARDS = True, simulationBalance = 100, calls = []\<rparr>"

text \<open>
  The same collaborators with a contract module that is down, with a claim that
  reverts, with a \<open>betUp\<close> that answers as \<open>betDown\<close> does, with a formatter that
  throws, and with a history module that is down.
\<close>

definition offlineModules :: "rat modules" where
  "offlineModules =
     exampleModules
       \<lparr>betDown := (\<lambda>amount epoch. Inl (Rejected ''network'')),
        betUp := (\<lambda>amount epoch. Inl (Rejected ''network'')),
        isClaimableRound := (\<lambda>epoch. Inl (Rejected ''network'')),
        claimRewards := (\<lambda>epochs. Inl (Rejected ''network''))\<rparr>"

definition unclaimableModules :: "rat modules" where
  "unclaimableModules = exampleModules\<lparr>claimRewards := (\<lambda>epochs. Inl (Rejected ''reverted''))\<rparr>"

definition mirroredModules :: "rat modules" where
  "mirroredModules = exampleModules\<lparr>betUp := betDown exampleModules\<rparr>"

definition unformattableModules :: "rat modules" where
  "unformattableModules = exampleModules\<lparr>formatUnit := rejectingFormatUnit\<rparr>"

definition diskFullModules :: "rat modules" where
  "diskFullModules = exampleModules\<lparr>saveRoundInHistory := (\<lambda>rows. Inl (Rejected ''disk full''))\<rparr>"

section \<open>Properties of parseTransactionReceipt\<close>

lemmas task_defs = andThen_def resolve_def sync_def invoke_def
  getSimulationBalance_def updateSimulationBalance_def

lemma decimalsOf_18: "decimalsOf dflt (Some ''18'') = Some 18"
  by (simp add: decimalsOf_def digit_def)

lemma specFormatUnit_no_unit: "specFormatUnit dflt (Some x) None = Inr (x / 10 ^ dflt)"
  by (simp add: specFormatUnit_def decimalsOf_def)

lemma specFormatUnit_18: "specFormatUnit dflt (Some x) (Some ''18'') = Inr (x / 10 ^ 18)"
  by (simp only: specFormatUnit_def decimalsOf_18 option.case)

lemma parse_example:
  "parseTransactionReceipt (specFormatUnit dflt) (exampleReceipt\<lparr>txReceipt.status := s\<rparr>) =
     Inr \<lparr>transaction.betExecuted = (s = 1),
          transaction.txGasFee = 21000 / 10 ^ dflt * (5000000000 / 10 ^ dflt) / 10 ^ 18\<rparr>"
  unfolding parseTransactionReceipt_def exampleReceipt_def
  by (simp add: specFormatUnit_no_unit specFormatUnit_18 del: power_numeral)

text \<open>
  C1. A receipt whose exception flag is not set: \<open>betExecuted\<close> is \<open>status === 1\<close>, and
  the fee is the formatter applied with unit \<open>"18"\<close> to the product of the formatted
  \<open>gasUsed\<close> and the formatted \<open>effectiveGasPrice\<close>, each formatted before the
  product is taken. \<open>status\<close> has no part in the fee: a receipt with \<open>status\<close> 0 gets
  the fee of the same receipt with \<open>status\<close> 1, not 0. The three hypotheses on the
  formatter say that its three calls return.
\<close>

theorem parseTransactionReceipt_fee:
  assumes "\<not> truthy (txReceipt.transactionExeption r)"
      and "fu (gasUsed r) None = Inr g"
      and "fu (effectiveGasPrice r) None = Inr p"
      and "fu (Some (g * p)) (Some ''18'') = Inr fee"
  shows "parseTransactionReceipt fu r =
           Inr \<lparr>transaction.betExecuted = (txReceipt.status r = 1), transaction.txGasFee = fee\<rparr>"
  using assms by (simp add: parseTransactionReceipt_def)

theorem parseTransactionReceipt_fee_witness:
  "\<not> truthy (txReceipt.transactionExeption (exampleReceipt\<lparr>txReceipt.status := 0\<rparr>))
   \<and> specFormatUnit 0 (gasUsed (exampleReceipt\<lparr>txReceipt.status := 0\<rparr>)) None = Inr 21000
   \<and> specFormatUnit 0 (effectiveGasPrice (exampleReceipt\<lparr>txReceipt.status := 0\<rparr>)) None = Inr 5000000000
   \<and> specFormatUnit 0 (Some (21000 * 5000000000)) (Some ''18'') = Inr (105 / 1000000)
   \<and> parseTransactionReceipt (specFormatUnit 0) (exampleReceipt\<lparr>txReceipt.status := 0\<rparr>) =
        Inr \<lparr>transaction.betExecuted = False, transaction.txGasFee = 105 / 1000000\<rparr>"
proof -
  let ?r = "exampleReceipt\<lparr>txReceipt.status := 0\<rparr>"
  have flag: "\<not> truthy (txReceipt.transactionExeption ?r)"
    by (simp add: exampleReceipt_def)
  have g: "specFormatUnit 0 (gasUsed ?r) None = Inr 21000"
    by (simp add: exampleReceipt_def specFormatUnit_no_unit)
  have p: "specFormatUnit 0 (effectiveGasPrice ?r) None = Inr 5000000000"
    by (simp add: exampleReceipt_def specFormatUnit_no_unit)
  have fee: "specFormatUnit 0 (Some (21000 * 5000000000)) (Some ''18'') = Inr (105 / 1000000)"
    by (simp add: specFormatUnit_18)
  from parseTransactionReceipt_fee [OF flag g p fee] flag g p fee
  show ?thesis by (simp add: exampleReceipt_def)
qed

text \<open>
  C2. A receipt whose exception flag is set: the fee is 0 and \<open>betExecuted\<close> is
  \<open>status === 1\<close>, whatever the gas fields hold and whatever the formatter would do
  with them; it is not called.
\<close>

theorem parseTransactionReceipt_exception:
  "truthy (txReceipt.transactionExeption r) \<Longrightarrow>
     parseTransactionReceipt fu r =
       Inr \<lparr>transaction.betExecuted = (txReceipt.status r = 1), transaction.txGasFee = 0\<rparr>"
  by (simp add: parseTransactionReceipt_def)

theorem parseTransactionReceipt_exception_witness:
  "truthy (txReceipt.transactionExeption (exceptionReceipt\<lparr>txReceipt.status := 1\<rparr>))
   \<and> parseTransactionReceipt (\<lambda>v unit. Inl (Rejected ''invalid value''))
        (exceptionReceipt\<lparr>txReceipt.status := 1\<rparr>) =
       Inr \<lparr>transaction.betExecuted = True, transaction.txGasFee = 0\<rparr>"
  using parseTransactionReceipt_exception
    [of "exceptionReceipt\<lparr>txReceipt.status := 1\<rparr>" "\<lambda>v unit. Inl (Rejected ''invalid value'')"]
  by (simp add: exceptionReceipt_def)




text \<open>
  The fee of the example receipt in closed form; the bounds on what a formatter near
  the exact one returns for it; and how far a fee within a tenth of the closed form
  stays from \<open>0.000000105\<close>, whatever the number of decimals applied where no unit is
  passed.
\<close>

lemma example_fee_value:
  "(21000 / 10 ^ d * (5000000000 / 10 ^ d) / 10 ^ 18 :: rat) = 105 / (1000000 * 100 ^ d)"
proof -
  have "(100::rat) ^ d = 10 ^ d * 10 ^ d"
    by (simp add: power_mult_distrib [symmetric])
  then show ?thesis by (simp add: field_simps)
qed

lemma near_bounds:
  assumes "\<bar>y - q\<bar> \<le> 1 / 100 * \<bar>q\<bar>" and "0 \<le> (q::rat)"
  shows "99 / 100 * q \<le> y" and "y \<le> 101 / 100 * q"
  using assms by linarith+

lemma example_fee_near:
  assumes "nearFormatter (1 / 100) dflt fu"
  obtains fee where
    "parseTransactionReceipt fu exampleReceipt =
       Inr \<lparr>transaction.betExecuted = True, transaction.txGasFee = fee\<rparr>"
    "\<bar>fee - 105 / (1000000 * 100 ^ dflt)\<bar> \<le> 105 / (1000000 * 100 ^ dflt) / 10"
proof -
  define G :: rat where "G = 21000 / 10 ^ dflt"
  define P :: rat where "P = 5000000000 / 10 ^ dflt"
  have G: "0 < G" and P: "0 < P" by (simp_all add: G_def P_def)
  from assms obtain g where g: "fu (Some 21000) None = Inr g" and "\<bar>g - G\<bar> \<le> 1 / 100 * \<bar>G\<bar>"
    unfolding nearFormatter_def G_def by blast
  with G have g_lo: "99 / 100 * G \<le> g" and g_hi: "g \<le> 101 / 100 * G"
    by linarith+
  from assms obtain p where p: "fu (Some 5000000000) None = Inr p" and "\<bar>p - P\<bar> \<le> 1 / 100 * \<bar>P\<bar>"
    unfolding nearFormatter_def P_def by blast
  with P have p_lo: "99 / 100 * P \<le> p" and p_hi: "p \<le> 101 / 100 * P"
    by linarith+
  from assms obtain fee where fee: "fu (Some (g * p)) (Some ''18'') = Inr fee"
    and near: "\<bar>fee - g * p / 10 ^ 18\<bar> \<le> 1 / 100 * \<bar>g * p / 10 ^ 18\<bar>"
    unfolding nearFormatter_def by blast
  from G P g_lo p_lo have "99 / 100 * G * (99 / 100 * P) \<le> g * p"
    by (intro mult_mono) simp_all
  then have gp_lo: "9801 / 10000 * (G * P) \<le> g * p" by simp
  from G P g_lo g_hi p_lo p_hi have "g * p \<le> 101 / 100 * G * (101 / 100 * P)"
    by (intro mult_mono) simp_all
  then have gp_hi: "g * p \<le> 10201 / 10000 * (G * P)" by simp
  define E :: rat where "E = G * P / 10 ^ 18"
  define Q :: rat where "Q = g * p / 10 ^ 18"
  from G P have E: "0 < E" by (simp add: E_def)
  from gp_lo have Q_lo: "9801 / 10000 * E \<le> Q"
    unfolding E_def Q_def by (simp add: divide_right_mono)
  from gp_hi have Q_hi: "Q \<le> 10201 / 10000 * E"
    unfolding E_def Q_def by (simp add: divide_right_mono)
  from Q_lo E have "0 \<le> Q" by simp
  with near have "99 / 100 * Q \<le> fee" and "fee \<le> 101 / 100 * Q"
    unfolding Q_def [symmetric] by linarith+
  with Q_lo Q_hi E have "\<bar>fee - E\<bar> \<le> E / 10" by linarith
  moreover have "E = 105 / (1000000 * 100 ^ dflt)"
    unfolding E_def G_def P_def by (rule example_fee_value)
  moreover from g p fee have "parseTransactionReceipt fu exampleReceipt =
       Inr \<lparr>transaction.betExecuted = True, transaction.txGasFee = fee\<rparr>"
    by (simp add: parseTransactionReceipt_def exampleReceipt_def)
  ultimately show thesis using that by simp
qed

lemma example_fee_apart:
  assumes "\<bar>fee - 105 / (1000000 * 100 ^ d)\<bar> \<le> 105 / (1000000 * 100 ^ d) / (10 :: rat)"
  shows "\<not> \<bar>fee - 105 / 10 ^ 9\<bar> \<le> 105 / 10 ^ 10"
proof -
  have "\<not> \<bar>fee - 105 / 1000000000\<bar> \<le> 105 / 10000000000"
  proof (cases d)
    case 0
    with assms have "\<bar>fee - 105 / 1000000\<bar> \<le> 105 / 1000000 / 10" by simp
    then show ?thesis by linarith
  next
    case (Suc k)
    show ?thesis
    proof (cases k)
      case 0
      with Suc assms have "\<bar>fee - 105 / 100000000\<bar> \<le> 105 / 100000000 / 10" by simp
      then show ?thesis by linarith
    next
      case (Suc j)
      have "(1::rat) \<le> 100 ^ j" by simp
      then have "105 / (1000000 * 100 ^ d) \<le> (105 / 10000000000 :: rat)"
        using \<open>d = Suc k\<close> Suc by (simp add: field_simps)
      moreover have "(0::rat) < 105 / (1000000 * 100 ^ d)" by simp
      moreover define E :: rat where "E = 105 / (1000000 * 100 ^ d)"
      ultimately have "E \<le> 105 / 10000000000" and "0 < E" and "\<bar>fee - E\<bar> \<le> E / 10"
        using assms by simp_all
      then show ?thesis by linarith
    qed
  qed
  then show ?thesis by simp
qed

lemma nearFormatter_spec: "nearFormatter (1 / 100) dflt (specFormatUnit dflt)"
  unfolding nearFormatter_def
proof (intro allI conjI)
  fix x :: rat
  show "\<exists>y. specFormatUnit dflt (Some x) None = Inr y
          \<and> \<bar>y - x / 10 ^ dflt\<bar> \<le> 1 / 100 * \<bar>x / 10 ^ dflt\<bar>"
    by (rule exI [of _ "x / 10 ^ dflt"]) (simp add: specFormatUnit_no_unit)
  show "\<exists>y. specFormatUnit dflt (Some x) (Some ''18'') = Inr y
          \<and> \<bar>y - x / 10 ^ 18\<bar> \<le> 1 / 100 * \<bar>x / 10 ^ 18\<bar>"
    by (rule exI [of _ "x / 10 ^ 18"]) (simp add: specFormatUnit_18 del: power_numeral)
qed

lemma nearFormatter_skewed: "nearFormatter (1 / 100) 18 skewedFormatUnit"
  unfolding nearFormatter_def
proof (intro allI conjI)
  fix x :: rat
  have skew: "\<bar>y * (1001 / 1000) - y\<bar> \<le> 1 / 100 * \<bar>y\<bar>" for y :: rat
  proof -
    have "y * (1001 / 1000) - y = y * (1 / 1000)" by (simp add: algebra_simps)
    then show ?thesis by (simp add: abs_mult)
  qed
  have no_unit: "skewedFormatUnit (Some x) None = Inr (x / 10 ^ 18 * (1001 / 1000))"
    by (simp only: skewedFormatUnit_def specFormatUnit_no_unit sum.case)
  have unit: "skewedFormatUnit (Some x) (Some ''18'') = Inr (x / 10 ^ 18 * (1001 / 1000))"
    by (simp only: skewedFormatUnit_def specFormatUnit_18 sum.case)
  from skew [of "x / 10 ^ 18"] no_unit
  show "\<exists>y. skewedFormatUnit (Some x) None = Inr y
          \<and> \<bar>y - x / 10 ^ 18\<bar> \<le> 1 / 100 * \<bar>x / 10 ^ 18\<bar>"
    by (intro exI [of _ "x / 10 ^ 18 * (1001 / 1000)"] conjI)
  from skew [of "x / 10 ^ 18"] unit
  show "\<exists>y. skewedFormatUnit (Some x) (Some ''18'') = Inr y
          \<and> \<bar>y - x / 10 ^ 18\<bar> \<le> 1 / 100 * \<bar>x / 10 ^ 18\<bar>"
    by (intro exI [of _ "x / 10 ^ 18 * (1001 / 1000)"] conjI)
qed

text \<open>
  C9. On the example receipt, with any formatter within one hundredth of the division
  by ten to the power of the decimals, applying \<open>dflt\<close> decimals where no unit is
  passed, \<open>betExecuted\<close> is true and the fee is within a tenth of
  \<open>105 / (10^6 * 100^dflt)\<close>, the product of the two formatted fields formatted once
  more: about \<open>1.05e-40\<close> with the 18 decimals the specification gives as the default,
  about \<open>0.000105\<close> with none. For no \<open>dflt\<close> is it within a tenth of \<open>0.000000105\<close>.
\<close>

theorem example_fee:
  assumes "nearFormatter (1 / 100) dflt fu"
  shows "\<exists>fee. parseTransactionReceipt fu exampleReceipt =
                 Inr \<lparr>transaction.betExecuted = True, transaction.txGasFee = fee\<rparr>
             \<and> \<bar>fee - 105 / (1000000 * 100 ^ dflt)\<bar> \<le> 105 / (1000000 * 100 ^ dflt) / 10
             \<and> \<not> \<bar>fee - 105 / 10 ^ 9\<bar> \<le> 105 / 10 ^ 10"
proof -
  from assms obtain fee where
    "parseTransactionReceipt fu exampleReceipt =
       Inr \<lparr>transaction.betExecuted = True, transaction.txGasFee = fee\<rparr>"
    and near: "\<bar>fee - 105 / (1000000 * 100 ^ dflt)\<bar> \<le> 105 / (1000000 * 100 ^ dflt) / 10"
    by (rule example_fee_near)
  moreover from near have "\<not> \<bar>fee - 105 / 10 ^ 9\<bar> \<le> 105 / 10 ^ 10"
    by (rule example_fee_apart)
  ultimately show ?thesis by blast
qed

theorem example_fee_witness:
  "nearFormatter (1 / 100) 18 skewedFormatUnit
   \<and> (\<exists>fee. parseTransactionReceipt skewedFormatUnit exampleReceipt =
               Inr \<lparr>transaction.betExecuted = True, transaction.txGasFee = fee\<rparr>
           \<and> \<bar>fee - 105 / 10 ^ 42\<bar> \<le> 105 / 10 ^ 42 / 10)
   \<and> nearFormatter (1 / 100) 0 (specFormatUnit 0)
   \<and> (\<exists>fee. parseTransactionReceipt (specFormatUnit 0) exampleReceipt =
               Inr \<lparr>transaction.betExecuted = True, transaction.txGasFee = fee\<rparr>
           \<and> \<bar>fee - 105 / 10 ^ 6\<bar> \<le> 105 / 10 ^ 6 / 10)"
proof -
  have e18: "(105 / (1000000 * 100 ^ 18) :: rat) = 105 / 10 ^ 42" by simp
  have e0: "(105 / (1000000 * 100 ^ 0) :: rat) = 105 / 10 ^ 6" by simp
  from example_fee [OF nearFormatter_skewed]
  have a: "\<exists>fee. parseTransactionReceipt skewedFormatUnit exampleReceipt =
               Inr \<lparr>transaction.betExecuted = True, transaction.txGasFee = fee\<rparr>
           \<and> \<bar>fee - 105 / 10 ^ 42\<bar> \<le> 105 / 10 ^ 42 / 10"
    unfolding e18 by blast
  from example_fee [OF nearFormatter_spec [of 0]]
  have b: "\<exists>fee. parseTransactionReceipt (specFormatUnit 0) exampleReceipt =
               Inr \<lparr>transaction.betExecuted = True, transaction.txGasFee = fee\<rparr>
           \<and> \<bar>fee - 105 / 10 ^ 6\<bar> \<le> 105 / 10 ^ 6 / 10"
    unfolding e0 by blast
  from nearFormatter_skewed a nearFormatter_spec [of 0] b show ?thesis by (intro conjI)
qed

text \<open>
  With the default of 18 decimals the fee is not within a tenth of the value
  \<open>0.0000001050\<close> that the specification's example gives.
\<close>

theorem example_fee_counterexample:
  "parseTransactionReceipt (specFormatUnit 18) exampleReceipt =
     Inr \<lparr>transaction.betExecuted = True, transaction.txGasFee = 105 / 10 ^ 42\<rparr>
   \<and> \<not> \<bar>105 / 10 ^ 42 - 105 / 10 ^ 9\<bar> \<le> (105 / 10 ^ 10 :: rat)"
proof -
  have "(21000 / 10 ^ 18 * (5000000000 / 10 ^ 18) / 10 ^ 18 :: rat) = 105 / 10 ^ 42" by simp
  moreover have "\<not> \<bar>105 / 10 ^ 42 - 105 / 10 ^ 9\<bar> \<le> (105 / 10 ^ 10 :: rat)" by simp
  moreover have "exampleReceipt\<lparr>txReceipt.status := 1\<rparr> = exampleReceipt"
    by (simp add: exampleReceipt_def)
  ultimately show ?thesis using parse_example [of 18 1] by simp
qed

section \<open>Properties of the strategies\<close>

lemma bet_rejected:
  assumes "placeBet d m (parseFromUsdToCrypto m (getBetAmount m)) epoch = Inl e"
  shows "betStrategy d m epoch w =
    (Inl e, w\<lparr>calls := calls w @ [placeBetCall d (parseFromUsdToCrypto m (getBetAmount m)) epoch]\<rparr>)"
  using assms by (cases d) (simp_all add: betDownStrategy_def betUpStrategy_def task_defs Let_def)

lemma bet_unparsed:
  assumes "placeBet d m (parseFromUsdToCrypto m (getBetAmount m)) epoch = Inr receipt"
      and "parseTransactionReceipt (formatUnit m) receipt = Inl e"
  shows "betStrategy d m epoch w =
    (Inl e, w\<lparr>calls := calls w @ [placeBetCall d (parseFromUsdToCrypto m (getBetAmount m)) epoch]\<rparr>)"
  using assms by (cases d) (simp_all add: betDownStrategy_def betUpStrategy_def task_defs Let_def)

lemma bet_parsed:
  assumes "placeBet d m (parseFromUsdToCrypto m (getBetAmount m)) epoch = Inr receipt"
      and "parseTransactionReceipt (formatUnit m) receipt = Inr t"
  shows "betStrategy d m epoch w =
    (let amount = parseFromUsdToCrypto m (getBetAmount m);
         w1 = w\<lparr>calls := calls w @ [placeBetCall d amount epoch]\<rparr>;
         balance = simulationBalance w - getBetAmount m - parseFeeFromCryptoToUsd m (transaction.txGasFee t);
         w2 = (if SIMULATION_MODE w
               then w1\<lparr>simulationBalance := balance,
                       calls := calls w1 @ [GetSimulationBalance, UpdateSimulationBalance balance]\<rparr>
               else w1)
     in case formatUnit m (Some epoch) None of
          Inl e \<Rightarrow> (Inl e, w2)
        | Inr round' \<Rightarrow>
           (let row = \<lparr>round = round', betAmount = amount, bet = d,
                       betExecuted = transaction.betExecuted t, txGasFee = transaction.txGasFee t\<rparr>;
                w3 = w2\<lparr>calls := calls w2 @ [SaveRoundInHistory [row]]\<rparr>
            in case saveRoundInHistory m [row] of
                 Inl e \<Rightarrow> (Inl e, w3)
               | Inr u \<Rightarrow> (Inr (transaction.betExecuted t), w3)))"
  using assms by (cases d) (simp_all add: betDownStrategy_def betUpStrategy_def task_defs Let_def split: sum.splits)

text \<open>What a completed invocation went through.\<close>

lemma bet_completed:
  assumes "betStrategy d m epoch w = (Inr b, w')"
  obtains receipt t round' where
    "placeBet d m (parseFromUsdToCrypto m (getBetAmount m)) epoch = Inr receipt"
    "parseTransactionReceipt (formatUnit m) receipt = Inr t"
    "formatUnit m (Some epoch) None = Inr round'"
    "b = transaction.betExecuted t"
    "SIMULATION_MODE w' = SIMULATION_MODE w"
    "CLAIM_REWARDS w' = CLAIM_REWARDS w"
    "simulationBalance w' =
       (if SIMULATION_MODE w
        then simulationBalance w - getBetAmount m - parseFeeFromCryptoToUsd m (transaction.txGasFee t)
        else simulationBalance w)"
    "calls w' = calls w @
       placeBetCall d (parseFromUsdToCrypto m (getBetAmount m)) epoch #
       (if SIMULATION_MODE w
        then [GetSimulationBalance,
              UpdateSimulationBalance
                (simulationBalance w - getBetAmount m - parseFeeFromCryptoToUsd m (transaction.txGasFee t))]
        else []) @
       [SaveRoundInHistory
          [\<lparr>round = round', betAmount = parseFromUsdToCrypto m (getBetAmount m), bet = d,
            betExecuted = transaction.betExecuted t, txGasFee = transaction.txGasFee t\<rparr>]]"
proof (cases "placeBet d m (parseFromUsdToCrypto m (getBetAmount m)) epoch")
  case (Inl e)
  from bet_rejected [OF this, of w] assms show ?thesis by simp
next
  case receipt: (Inr receipt)
  show ?thesis
  proof (cases "parseTransactionReceipt (formatUnit m) receipt")
    case (Inl e)
    from bet_unparsed [OF receipt this, of w] assms show ?thesis by simp
  next
    case t: (Inr t)
    from bet_parsed [OF receipt t, of w] assms
    obtain round' where "formatUnit m (Some epoch) None = Inr round'"
      by (cases "formatUnit m (Some epoch) None") (simp_all add: Let_def)
    with bet_parsed [OF receipt t, of w] assms receipt t that [of receipt t round']
    show ?thesis
      by (auto simp add: Let_def split: sum.splits if_splits)
  qed
qed

lemma newCalls_append: "calls w' = calls w @ cs \<Longrightarrow> newCalls w w' = cs"
  by (simp add: newCalls_def)

lemma claim_disabled:
  "\<not> CLAIM_REWARDS w \<Longrightarrow>
     claimStrategy m epoch w = (Inr \<lparr>status = 0, txGasFee = 0, transactionExeption = None\<rparr>, w)"
  by (simp add: claimStrategy_def task_defs)

lemma claim_enabled:
  "CLAIM_REWARDS w \<Longrightarrow>
     claimStrategy m epoch w =
       (case isClaimableRound m epoch of
          Inl e \<Rightarrow> (Inl e, w\<lparr>calls := calls w @ [IsClaimableRound epoch]\<rparr>)
        | Inr claimable \<Rightarrow>
            if claimable
            then (claimRewards m [epoch],
                  w\<lparr>calls := calls w @ [IsClaimableRound epoch, ClaimRewards [epoch]]\<rparr>)
            else (Inr \<lparr>status = 0, txGasFee = 0, transactionExeption = None\<rparr>,
                  w\<lparr>calls := calls w @ [IsClaimableRound epoch]\<rparr>))"
  by (simp add: claimStrategy_def task_defs split: sum.splits)

lemma run_bet_down:
  "betStrategy BET_DOWN exampleModules 7 exampleBot =
     (Inr True,
      \<lparr>SIMULATION_MODE = True, CLAIM_REWARDS = True, simulationBalance = 179937 / 2000,
       calls = [BetDown (1 / 30) 7, GetSimulationBalance, UpdateSimulationBalance (179937 / 2000),
                SaveRoundInHistory
                  [\<lparr>round = 7, betAmount = 1 / 30, bet = BET_DOWN, betExecuted = True,
                    txGasFee = 21 / 200000\<rparr>]]\<rparr>)"
proof -
  have r: "placeBet BET_DOWN exampleModules
             (parseFromUsdToCrypto exampleModules (getBetAmount exampleModules)) 7 = Inr (exampleReceipt\<lparr>txReceipt.status := 1\<rparr>)"
    by (simp add: exampleModules_def exampleReceipt_def)
  have t: "parseTransactionReceipt (formatUnit exampleModules) (exampleReceipt\<lparr>txReceipt.status := 1\<rparr>) =
             Inr \<lparr>transaction.betExecuted = True, transaction.txGasFee = 21 / 200000\<rparr>"
    using parse_example [of 0 1] by (simp add: exampleModules_def)
  show ?thesis unfolding bet_parsed [OF r t]
    by (simp add: exampleModules_def exampleBot_def specFormatUnit_no_unit Let_def)
qed

lemma run_bet_up:
  "betStrategy BET_UP exampleModules 7 (exampleBot\<lparr>SIMULATION_MODE := False\<rparr>) =
     (Inr False,
      \<lparr>SIMULATION_MODE = False, CLAIM_REWARDS = True, simulationBalance = 100,
       calls = [BetUp (1 / 30) 7,
                SaveRoundInHistory
                  [\<lparr>round = 7, betAmount = 1 / 30, bet = BET_UP, betExecuted = False,
                    txGasFee = 21 / 200000\<rparr>]]\<rparr>)"
proof -
  have r: "placeBet BET_UP exampleModules
             (parseFromUsdToCrypto exampleModules (getBetAmount exampleModules)) 7 = Inr (exampleReceipt\<lparr>txReceipt.status := 0\<rparr>)"
    by (simp add: exampleModules_def exampleReceipt_def)
  have t: "parseTransactionReceipt (formatUnit exampleModules) (exampleReceipt\<lparr>txReceipt.status := 0\<rparr>) =
             Inr \<lparr>transaction.betExecuted = False, transaction.txGasFee = 21 / 200000\<rparr>"
    using parse_example [of 0 0] by (simp add: exampleModules_def)
  show ?thesis unfolding bet_parsed [OF r t]
    by (simp add: exampleModules_def exampleBot_def specFormatUnit_no_unit Let_def)
qed

lemma run_bet_up_simulated:
  "betStrategy BET_UP exampleModules 7 exampleBot =
     (Inr False,
      \<lparr>SIMULATION_MODE = True, CLAIM_REWARDS = True, simulationBalance = 179937 / 2000,
       calls = [BetUp (1 / 30) 7, GetSimulationBalance, UpdateSimulationBalance (179937 / 2000),
                SaveRoundInHistory
                  [\<lparr>round = 7, betAmount = 1 / 30, bet = BET_UP, betExecuted = False,
                    txGasFee = 21 / 200000\<rparr>]]\<rparr>)"
proof -
  have r: "placeBet BET_UP exampleModules
             (parseFromUsdToCrypto exampleModules (getBetAmount exampleModules)) 7 = Inr (exampleReceipt\<lparr>txReceipt.status := 0\<rparr>)"
    by (simp add: exampleModules_def exampleReceipt_def)
  have t: "parseTransactionReceipt (formatUnit exampleModules) (exampleReceipt\<lparr>txReceipt.status := 0\<rparr>) =
             Inr \<lparr>transaction.betExecuted = False, transaction.txGasFee = 21 / 200000\<rparr>"
    using parse_example [of 0 0] by (simp add: exampleModules_def)
  show ?thesis unfolding bet_parsed [OF r t]
    by (simp add: exampleModules_def exampleBot_def specFormatUnit_no_unit Let_def)
qed

lemma bet_not_simulated:
  assumes "\<not> SIMULATION_MODE w"
  shows "simulationBalance (snd (betStrategy d m epoch w)) = simulationBalance w"
    and "filter ledgerCall (newCalls w (snd (betStrategy d m epoch w))) = []"
proof -
  let ?amount = "parseFromUsdToCrypto m (getBetAmount m)"
  have "simulationBalance (snd (betStrategy d m epoch w)) = simulationBalance w
      \<and> filter ledgerCall (newCalls w (snd (betStrategy d m epoch w))) = []"
  proof (cases "placeBet d m ?amount epoch")
    case (Inl e)
    from bet_rejected [OF this, of w] show ?thesis
      by (cases d) (simp_all add: newCalls_def)
  next
    case receipt: (Inr receipt)
    show ?thesis
    proof (cases "parseTransactionReceipt (formatUnit m) receipt")
      case (Inl e)
      from bet_unparsed [OF receipt this, of w] show ?thesis
        by (cases d) (simp_all add: newCalls_def)
    next
      case (Inr t)
      from bet_parsed [OF receipt this, of w] assms show ?thesis
        by (cases d) (simp_all add: newCalls_def Let_def split: sum.splits)
    qed
  qed
  then show "simulationBalance (snd (betStrategy d m epoch w)) = simulationBalance w"
    and "filter ledgerCall (newCalls w (snd (betStrategy d m epoch w))) = []"
    by simp_all
qed

lemma run_bet_unformattable:
  "fst (betStrategy BET_DOWN unformattableModules 7 (exampleBot\<lparr>SIMULATION_MODE := False\<rparr>)) =
     Inl (Rejected ''invalid value'')"
proof -
  have r: "placeBet BET_DOWN unformattableModules
             (parseFromUsdToCrypto unformattableModules (getBetAmount unformattableModules)) 7 =
           Inr exampleReceipt"
    by (simp add: unformattableModules_def exampleModules_def)
  have t: "parseTransactionReceipt (formatUnit unformattableModules) exampleReceipt =
             Inl (Rejected ''invalid value'')"
    by (simp add: unformattableModules_def parseTransactionReceipt_def exampleReceipt_def
        rejectingFormatUnit_def)
  show ?thesis unfolding bet_unparsed [OF r t] by simp
qed

text \<open>
  C3. A bet strategy that has completed with \<open>SIMULATION_MODE\<close> set: the fictitious
  balance after the call is the balance before it, minus the bet amount in dollars, minus
  the fee of the parsed receipt converted to dollars, whether \<open>betExecuted\<close> is true or
  false. With \<open>SIMULATION_MODE\<close> not set, whether the invocation completes or is
  rejected, and wherever it is rejected, the balance is the same and the invocation
  has made no call to the wallet module, neither a read nor a write.
\<close>

theorem betStrategy_simulationBalance:
  "(betStrategy d m epoch w = (Inr b, w') \<longrightarrow>
      (\<exists>receipt outcome.
           placeBet d m (parseFromUsdToCrypto m (getBetAmount m)) epoch = Inr receipt
         \<and> parseTransactionReceipt (formatUnit m) receipt = Inr outcome
         \<and> b = transaction.betExecuted outcome
         \<and> (if SIMULATION_MODE w
            then simulationBalance w' =
                   simulationBalance w - getBetAmount m
                     - parseFeeFromCryptoToUsd m (transaction.txGasFee outcome)
            else simulationBalance w' = simulationBalance w
                 \<and> filter ledgerCall (newCalls w w') = [])))
   \<and> (\<not> SIMULATION_MODE w \<longrightarrow>
        simulationBalance (snd (betStrategy d m epoch w)) = simulationBalance w
      \<and> filter ledgerCall (newCalls w (snd (betStrategy d m epoch w))) = [])"
proof (intro conjI impI)
  assume run: "betStrategy d m epoch w = (Inr b, w')"
  then obtain receipt t round' where
    "placeBet d m (parseFromUsdToCrypto m (getBetAmount m)) epoch = Inr receipt"
    "parseTransactionReceipt (formatUnit m) receipt = Inr t"
    "b = transaction.betExecuted t"
    "simulationBalance w' =
       (if SIMULATION_MODE w
        then simulationBalance w - getBetAmount m - parseFeeFromCryptoToUsd m (transaction.txGasFee t)
        else simulationBalance w)"
    by (rule bet_completed)
  moreover from run bet_not_simulated(2) [of w d m epoch]
  have "\<not> SIMULATION_MODE w \<Longrightarrow> filter ledgerCall (newCalls w w') = []"
    by simp
  ultimately show "\<exists>receipt outcome.
           placeBet d m (parseFromUsdToCrypto m (getBetAmount m)) epoch = Inr receipt
         \<and> parseTransactionReceipt (formatUnit m) receipt = Inr outcome
         \<and> b = transaction.betExecuted outcome
         \<and> (if SIMULATION_MODE w
            then simulationBalance w' =
                   simulationBalance w - getBetAmount m
                     - parseFeeFromCryptoToUsd m (transaction.txGasFee outcome)
            else simulationBalance w' = simulationBalance w
                 \<and> filter ledgerCall (newCalls w w') = [])"
    by (intro exI [of _ receipt] exI [of _ t]) simp
next
  assume "\<not> SIMULATION_MODE w"
  then show "simulationBalance (snd (betStrategy d m epoch w)) = simulationBalance w"
    by (rule bet_not_simulated)
next
  assume "\<not> SIMULATION_MODE w"
  then show "filter ledgerCall (newCalls w (snd (betStrategy d m epoch w))) = []"
    by (rule bet_not_simulated)
qed

theorem betStrategy_simulationBalance_witness:
  "SIMULATION_MODE exampleBot
   \<and> fst (betStrategy BET_DOWN exampleModules 7 exampleBot) = Inr True
   \<and> simulationBalance (snd (betStrategy BET_DOWN exampleModules 7 exampleBot)) =
       100 - 10 - 105 / 1000000 * 300
   \<and> fst (betStrategy BET_UP exampleModules 7 exampleBot) = Inr False
   \<and> simulationBalance (snd (betStrategy BET_UP exampleModules 7 exampleBot)) =
       100 - 10 - 105 / 1000000 * 300
   \<and> \<not> SIMULATION_MODE (exampleBot\<lparr>SIMULATION_MODE := False\<rparr>)
   \<and> fst (betStrategy BET_UP exampleModules 7 (exampleBot\<lparr>SIMULATION_MODE := False\<rparr>)) = Inr False
   \<and> simulationBalance (snd (betStrategy BET_UP exampleModules 7 (exampleBot\<lparr>SIMULATION_MODE := False\<rparr>))) = 100
   \<and> filter ledgerCall (newCalls (exampleBot\<lparr>SIMULATION_MODE := False\<rparr>)
        (snd (betStrategy BET_UP exampleModules 7 (exampleBot\<lparr>SIMULATION_MODE := False\<rparr>)))) = []
   \<and> fst (betStrategy BET_DOWN unformattableModules 7 (exampleBot\<lparr>SIMULATION_MODE := False\<rparr>)) =
       Inl (Rejected ''invalid value'')
   \<and> simulationBalance
        (snd (betStrategy BET_DOWN unformattableModules 7 (exampleBot\<lparr>SIMULATION_MODE := False\<rparr>))) = 100
   \<and> filter ledgerCall (newCalls (exampleBot\<lparr>SIMULATION_MODE := False\<rparr>)
        (snd (betStrategy BET_DOWN unformattableModules 7 (exampleBot\<lparr>SIMULATION_MODE := False\<rparr>)))) = []"
proof -
  let ?down = "betStrategy BET_DOWN exampleModules 7 exampleBot"
  let ?up = "betStrategy BET_UP exampleModules 7 exampleBot"
  let ?off = "exampleBot\<lparr>SIMULATION_MODE := False\<rparr>"
  let ?up_off = "betStrategy BET_UP exampleModules 7 ?off"
  have sim: "SIMULATION_MODE exampleBot" by (simp add: exampleBot_def)
  have off: "\<not> SIMULATION_MODE ?off" by simp
  have fst_down: "fst ?down = Inr True" using run_bet_down by simp
  have fst_up: "fst ?up = Inr False" using run_bet_up_simulated by simp
  have fst_up_off: "fst ?up_off = Inr False" using run_bet_up by simp
  have down: "?down = (Inr True, snd ?down)" using fst_down by (simp add: prod_eq_iff)
  have up: "?up = (Inr False, snd ?up)" using fst_up by (simp add: prod_eq_iff)
  have up_off: "?up_off = (Inr False, snd ?up_off)" using fst_up_off by (simp add: prod_eq_iff)
  have fee: "parseTransactionReceipt (formatUnit exampleModules) (exampleReceipt\<lparr>txReceipt.status := s\<rparr>) =
             Inr \<lparr>transaction.betExecuted = (s = 1), transaction.txGasFee = 105 / 1000000\<rparr>" for s
    using parse_example [of 0 s] by (simp add: exampleModules_def)
  have r_down: "placeBet BET_DOWN exampleModules
       (parseFromUsdToCrypto exampleModules (getBetAmount exampleModules)) 7 =
     Inr (exampleReceipt\<lparr>txReceipt.status := 1\<rparr>)"
    by (simp add: exampleModules_def exampleReceipt_def)
  have r_up: "placeBet BET_UP exampleModules
       (parseFromUsdToCrypto exampleModules (getBetAmount exampleModules)) 7 =
     Inr (exampleReceipt\<lparr>txReceipt.status := 0\<rparr>)"
    by (simp add: exampleModules_def)
  from betStrategy_simulationBalance [THEN conjunct1, rule_format, OF down] sim obtain receipt outcome where
    "placeBet BET_DOWN exampleModules
       (parseFromUsdToCrypto exampleModules (getBetAmount exampleModules)) 7 = Inr receipt"
    and outcome: "parseTransactionReceipt (formatUnit exampleModules) receipt = Inr outcome"
    and balance: "simulationBalance (snd ?down) =
       simulationBalance exampleBot - getBetAmount exampleModules
         - parseFeeFromCryptoToUsd exampleModules (transaction.txGasFee outcome)"
    by auto
  with r_down have "receipt = exampleReceipt\<lparr>txReceipt.status := 1\<rparr>" by simp
  with outcome fee [of 1]
  have "outcome = \<lparr>transaction.betExecuted = True, transaction.txGasFee = 105 / 1000000\<rparr>"
    by simp
  with balance have b_down: "simulationBalance (snd ?down) = 100 - 10 - 105 / 1000000 * 300"
    by (simp add: exampleModules_def exampleBot_def)
  from betStrategy_simulationBalance [THEN conjunct1, rule_format, OF up] sim obtain receipt' outcome' where
    "placeBet BET_UP exampleModules
       (parseFromUsdToCrypto exampleModules (getBetAmount exampleModules)) 7 = Inr receipt'"
    and outcome': "parseTransactionReceipt (formatUnit exampleModules) receipt' = Inr outcome'"
    and balance': "simulationBalance (snd ?up) =
       simulationBalance exampleBot - getBetAmount exampleModules
         - parseFeeFromCryptoToUsd exampleModules (transaction.txGasFee outcome')"
    by auto
  with r_up have "receipt' = exampleReceipt\<lparr>txReceipt.status := 0\<rparr>" by simp
  with outcome' fee [of 0]
  have "outcome' = \<lparr>transaction.betExecuted = False, transaction.txGasFee = 105 / 1000000\<rparr>"
    by simp
  with balance' have b_up: "simulationBalance (snd ?up) = 100 - 10 - 105 / 1000000 * 300"
    by (simp add: exampleModules_def exampleBot_def)
  from betStrategy_simulationBalance [THEN conjunct1, rule_format, OF up_off] off
  have "simulationBalance (snd ?up_off) = simulationBalance ?off"
    and l_off: "filter ledgerCall (newCalls ?off (snd ?up_off)) = []"
    by auto
  then have b_off: "simulationBalance (snd ?up_off) = 100" by (simp add: exampleBot_def)
  let ?thrown = "betStrategy BET_DOWN unformattableModules 7 ?off"
  note fst_thrown = run_bet_unformattable
  note thrown = betStrategy_simulationBalance
    [of BET_DOWN unformattableModules 7 ?off, THEN conjunct2, rule_format, OF off]
  from thrown have "simulationBalance (snd ?thrown) = simulationBalance ?off" by (rule conjunct1)
  then have b_thrown: "simulationBalance (snd ?thrown) = 100" by (simp add: exampleBot_def)
  from thrown have l_thrown: "filter ledgerCall (newCalls ?off (snd ?thrown)) = []"
    by (rule conjunct2)
  from sim fst_down b_down fst_up b_up off fst_up_off b_off l_off fst_thrown b_thrown l_thrown
  show ?thesis by (intro conjI)
qed

text \<open>
  C4. A bet strategy that has completed made exactly one call of \<open>saveRoundInHistory\<close>,
  its last call: after the contract call and after the update of the fictitious balance,
  if there was one. Its argument is a list of one row, whose \<open>bet\<close> is the direction of
  the strategy, whose \<open>round\<close> is the formatted epoch, whose \<open>betAmount\<close> is the amount
  in crypto that the contract call was given, and whose \<open>betExecuted\<close> and \<open>txGasFee\<close>
  are those of the parsed receipt, whatever \<open>betExecuted\<close> is.
\<close>

theorem betStrategy_history:
  assumes "betStrategy d m epoch w = (Inr b, w')"
  shows "\<exists>receipt outcome round'.
           placeBet d m (parseFromUsdToCrypto m (getBetAmount m)) epoch = Inr receipt
         \<and> parseTransactionReceipt (formatUnit m) receipt = Inr outcome
         \<and> formatUnit m (Some epoch) None = Inr round'
         \<and> b = transaction.betExecuted outcome
         \<and> calls w' = calls w @ newCalls w w'
         \<and> newCalls w w' =
              placeBetCall d (parseFromUsdToCrypto m (getBetAmount m)) epoch #
              (if SIMULATION_MODE w
               then [GetSimulationBalance,
                     UpdateSimulationBalance
                       (simulationBalance w - getBetAmount m
                          - parseFeeFromCryptoToUsd m (transaction.txGasFee outcome))]
               else []) @
              [SaveRoundInHistory
                 [\<lparr>round = round', betAmount = parseFromUsdToCrypto m (getBetAmount m), bet = d,
                   betExecuted = transaction.betExecuted outcome,
                   txGasFee = transaction.txGasFee outcome\<rparr>]]
         \<and> length (filter historyCall (newCalls w w')) = 1"
proof -
  from assms obtain receipt t round' where
    r: "placeBet d m (parseFromUsdToCrypto m (getBetAmount m)) epoch = Inr receipt"
    and t: "parseTransactionReceipt (formatUnit m) receipt = Inr t"
    and f: "formatUnit m (Some epoch) None = Inr round'"
    and b: "b = transaction.betExecuted t"
    and c: "calls w' = calls w @
       placeBetCall d (parseFromUsdToCrypto m (getBetAmount m)) epoch #
       (if SIMULATION_MODE w
        then [GetSimulationBalance,
              UpdateSimulationBalance
                (simulationBalance w - getBetAmount m - parseFeeFromCryptoToUsd m (transaction.txGasFee t))]
        else []) @
       [SaveRoundInHistory
          [\<lparr>round = round', betAmount = parseFromUsdToCrypto m (getBetAmount m), bet = d,
            betExecuted = transaction.betExecuted t, txGasFee = transaction.txGasFee t\<rparr>]]"
    by (rule bet_completed)
  note n = newCalls_append [OF c]
  have "length (filter historyCall (newCalls w w')) = 1"
    unfolding n by (cases d) simp_all
  with r t f b c n show ?thesis
    by (intro exI [of _ receipt] exI [of _ t] exI [of _ round']) simp
qed

theorem betStrategy_history_witness:
  "fst (betStrategy BET_DOWN exampleModules 7 exampleBot) = Inr True
   \<and> newCalls exampleBot (snd (betStrategy BET_DOWN exampleModules 7 exampleBot)) =
      [BetDown (1 / 30) 7, GetSimulationBalance,
       UpdateSimulationBalance (100 - 10 - 105 / 1000000 * 300),
       SaveRoundInHistory
         [\<lparr>round = 7, betAmount = 1 / 30, bet = BET_DOWN, betExecuted = True,
           txGasFee = 105 / 1000000\<rparr>]]
   \<and> fst (betStrategy BET_UP exampleModules 7 (exampleBot\<lparr>SIMULATION_MODE := False\<rparr>)) = Inr False
   \<and> newCalls (exampleBot\<lparr>SIMULATION_MODE := False\<rparr>)
        (snd (betStrategy BET_UP exampleModules 7 (exampleBot\<lparr>SIMULATION_MODE := False\<rparr>))) =
      [BetUp (1 / 30) 7,
       SaveRoundInHistory
         [\<lparr>round = 7, betAmount = 1 / 30, bet = BET_UP, betExecuted = False,
           txGasFee = 105 / 1000000\<rparr>]]"
proof -
  let ?down = "betStrategy BET_DOWN exampleModules 7 exampleBot"
  let ?off = "exampleBot\<lparr>SIMULATION_MODE := False\<rparr>"
  let ?up = "betStrategy BET_UP exampleModules 7 ?off"
  have sim: "SIMULATION_MODE exampleBot" by (simp add: exampleBot_def)
  have off: "\<not> SIMULATION_MODE ?off" by simp
  have fst_down: "fst ?down = Inr True" using run_bet_down by simp
  have fst_up: "fst ?up = Inr False" using run_bet_up by simp
  have down: "?down = (Inr True, snd ?down)" using fst_down by (simp add: prod_eq_iff)
  have up: "?up = (Inr False, snd ?up)" using fst_up by (simp add: prod_eq_iff)
  have fee: "parseTransactionReceipt (formatUnit exampleModules) (exampleReceipt\<lparr>txReceipt.status := s\<rparr>) =
             Inr \<lparr>transaction.betExecuted = (s = 1), transaction.txGasFee = 105 / 1000000\<rparr>" for s
    using parse_example [of 0 s] by (simp add: exampleModules_def)
  have r_down: "placeBet BET_DOWN exampleModules
       (parseFromUsdToCrypto exampleModules (getBetAmount exampleModules)) 7 =
     Inr (exampleReceipt\<lparr>txReceipt.status := 1\<rparr>)"
    by (simp add: exampleModules_def exampleReceipt_def)
  have r_up: "placeBet BET_UP exampleModules
       (parseFromUsdToCrypto exampleModules (getBetAmount exampleModules)) 7 =
     Inr (exampleReceipt\<lparr>txReceipt.status := 0\<rparr>)"
    by (simp add: exampleModules_def)
  have f: "formatUnit exampleModules (Some 7) None = Inr 7"
    by (simp add: exampleModules_def specFormatUnit_no_unit)
  from betStrategy_history [OF down] sim obtain receipt outcome round' where
    "placeBet BET_DOWN exampleModules
       (parseFromUsdToCrypto exampleModules (getBetAmount exampleModules)) 7 = Inr receipt"
    and outcome: "parseTransactionReceipt (formatUnit exampleModules) receipt = Inr outcome"
    and round': "formatUnit exampleModules (Some 7) None = Inr round'"
    and new: "newCalls exampleBot (snd ?down) =
       [placeBetCall BET_DOWN (parseFromUsdToCrypto exampleModules (getBetAmount exampleModules)) 7,
        GetSimulationBalance,
        UpdateSimulationBalance
          (simulationBalance exampleBot - getBetAmount exampleModules
             - parseFeeFromCryptoToUsd exampleModules (transaction.txGasFee outcome)),
        SaveRoundInHistory
          [\<lparr>round = round',
            betAmount = parseFromUsdToCrypto exampleModules (getBetAmount exampleModules),
            bet = BET_DOWN, betExecuted = transaction.betExecuted outcome,
            txGasFee = transaction.txGasFee outcome\<rparr>]]"
    by auto
  with r_down have "receipt = exampleReceipt\<lparr>txReceipt.status := 1\<rparr>" by simp
  with outcome fee [of 1]
  have "outcome = \<lparr>transaction.betExecuted = True, transaction.txGasFee = 105 / 1000000\<rparr>"
    by simp
  moreover from round' f have "round' = 7" by simp
  ultimately have c_down: "newCalls exampleBot (snd ?down) =
      [BetDown (1 / 30) 7, GetSimulationBalance,
       UpdateSimulationBalance (100 - 10 - 105 / 1000000 * 300),
       SaveRoundInHistory
         [\<lparr>round = 7, betAmount = 1 / 30, bet = BET_DOWN, betExecuted = True,
           txGasFee = 105 / 1000000\<rparr>]]"
    using new by (simp add: exampleModules_def exampleBot_def)
  from betStrategy_history [OF up] off obtain receipt' outcome' round'' where
    "placeBet BET_UP exampleModules
       (parseFromUsdToCrypto exampleModules (getBetAmount exampleModules)) 7 = Inr receipt'"
    and outcome': "parseTransactionReceipt (formatUnit exampleModules) receipt' = Inr outcome'"
    and round'': "formatUnit exampleModules (Some 7) None = Inr round''"
    and new': "newCalls ?off (snd ?up) =
       [placeBetCall BET_UP (parseFromUsdToCrypto exampleModules (getBetAmount exampleModules)) 7,
        SaveRoundInHistory
          [\<lparr>round = round'',
            betAmount = parseFromUsdToCrypto exampleModules (getBetAmount exampleModules),
            bet = BET_UP, betExecuted = transaction.betExecuted outcome',
            txGasFee = transaction.txGasFee outcome'\<rparr>]]"
    by auto
  with r_up have "receipt' = exampleReceipt\<lparr>txReceipt.status := 0\<rparr>" by simp
  with outcome' fee [of 0]
  have "outcome' = \<lparr>transaction.betExecuted = False, transaction.txGasFee = 105 / 1000000\<rparr>"
    by simp
  moreover from round'' f have "round'' = 7" by simp
  ultimately have c_up: "newCalls ?off (snd ?up) =
      [BetUp (1 / 30) 7,
       SaveRoundInHistory
         [\<lparr>round = 7, betAmount = 1 / 30, bet = BET_UP, betExecuted = False,
           txGasFee = 105 / 1000000\<rparr>]]"
    using new' by (simp add: exampleModules_def)
  from fst_down c_down fst_up c_up show ?thesis by (intro conjI)
qed

text \<open>
  C5. With \<open>CLAIM_REWARDS\<close> not set, \<open>claimStrategy\<close> resolves to
  \<^verbatim>\<open>{ status: 0, txGasFee: 0 }\<close> and makes no call at all: \<open>isClaimableRound\<close> is not
  called. With \<open>CLAIM_REWARDS\<close> set and \<open>isClaimableRound\<close> resolving to \<open>false\<close>, it
  resolves to the same object and \<open>isClaimableRound\<close> is its only call: \<open>claimRewards\<close> is
  not called.
\<close>

theorem claimStrategy_skips:
  "(\<not> CLAIM_REWARDS w \<longrightarrow>
      claimStrategy m epoch w =
        (Inr \<lparr>status = 0, txGasFee = 0, transactionExeption = None\<rparr>, w)
      \<and> newCalls w (snd (claimStrategy m epoch w)) = [])
   \<and> (CLAIM_REWARDS w \<and> isClaimableRound m epoch = Inr False \<longrightarrow>
      claimStrategy m epoch w =
        (Inr \<lparr>status = 0, txGasFee = 0, transactionExeption = None\<rparr>,
         w\<lparr>calls := calls w @ [IsClaimableRound epoch]\<rparr>)
      \<and> newCalls w (snd (claimStrategy m epoch w)) = [IsClaimableRound epoch])"
  by (simp add: claim_disabled claim_enabled newCalls_def)

theorem claimStrategy_skips_witness:
  "\<not> CLAIM_REWARDS (exampleBot\<lparr>CLAIM_REWARDS := False\<rparr>)
   \<and> claimStrategy exampleModules 7 (exampleBot\<lparr>CLAIM_REWARDS := False\<rparr>) =
       (Inr \<lparr>status = 0, txGasFee = 0, transactionExeption = None\<rparr>,
        exampleBot\<lparr>CLAIM_REWARDS := False\<rparr>)
   \<and> CLAIM_REWARDS exampleBot
   \<and> isClaimableRound exampleModules 8 = Inr False
   \<and> claimStrategy exampleModules 8 exampleBot =
       (Inr \<lparr>status = 0, txGasFee = 0, transactionExeption = None\<rparr>,
        exampleBot\<lparr>calls := [IsClaimableRound 8]\<rparr>)"
proof -
  have a: "\<not> CLAIM_REWARDS (exampleBot\<lparr>CLAIM_REWARDS := False\<rparr>)" by simp
  have b: "CLAIM_REWARDS exampleBot" by (simp add: exampleBot_def)
  have c: "isClaimableRound exampleModules 8 = Inr False" by (simp add: exampleModules_def)
  from claimStrategy_skips [of "exampleBot\<lparr>CLAIM_REWARDS := False\<rparr>" exampleModules 7] a
  have d: "claimStrategy exampleModules 7 (exampleBot\<lparr>CLAIM_REWARDS := False\<rparr>) =
       (Inr \<lparr>status = 0, txGasFee = 0, transactionExeption = None\<rparr>,
        exampleBot\<lparr>CLAIM_REWARDS := False\<rparr>)"
    by simp
  from claimStrategy_skips [of exampleBot exampleModules 8] b c
  have e: "claimStrategy exampleModules 8 exampleBot =
       (Inr \<lparr>status = 0, txGasFee = 0, transactionExeption = None\<rparr>,
        exampleBot\<lparr>calls := [IsClaimableRound 8]\<rparr>)"
    by (simp add: exampleBot_def)
  from a d b c e show ?thesis by (intro conjI)
qed

text \<open>
  C6. With \<open>CLAIM_REWARDS\<close> set and \<open>isClaimableRound\<close> resolving to \<open>true\<close>,
  \<open>claimStrategy\<close> calls \<open>claimRewards\<close> once, with the list of the one epoch, and what
  \<open>claimRewards\<close> resolves to or is rejected with is what \<open>claimStrategy\<close> resolves to or
  is rejected with, as it is.
\<close>

theorem claimStrategy_claims:
  assumes "CLAIM_REWARDS w" and "isClaimableRound m epoch = Inr True"
  shows "claimStrategy m epoch w =
           (claimRewards m [epoch],
            w\<lparr>calls := calls w @ [IsClaimableRound epoch, ClaimRewards [epoch]]\<rparr>)
         \<and> filter claimCall (newCalls w (snd (claimStrategy m epoch w))) = [ClaimRewards [epoch]]"
  using assms by (simp add: claim_enabled newCalls_def)

theorem claimStrategy_claims_witness:
  "CLAIM_REWARDS exampleBot
   \<and> isClaimableRound exampleModules 7 = Inr True
   \<and> claimStrategy exampleModules 7 exampleBot =
       (Inr \<lparr>status = 1, txGasFee = 1 / 1000, transactionExeption = Some False\<rparr>,
        exampleBot\<lparr>calls := [IsClaimableRound 7, ClaimRewards [7]]\<rparr>)"
proof -
  have a: "CLAIM_REWARDS exampleBot" by (simp add: exampleBot_def)
  have b: "isClaimableRound exampleModules 7 = Inr True" by (simp add: exampleModules_def)
  from claimStrategy_claims [OF a b]
  have "claimStrategy exampleModules 7 exampleBot =
       (Inr \<lparr>status = 1, txGasFee = 1 / 1000, transactionExeption = Some False\<rparr>,
        exampleBot\<lparr>calls := [IsClaimableRound 7, ClaimRewards [7]]\<rparr>)"
    by (simp add: exampleBot_def exampleModules_def)
  with a b show ?thesis by (intro conjI)
qed

text \<open>
  C7. A rejection of a collaborator is the rejection of the strategy, and the
  collaborator is not called again. When the contract call of a bet strategy is
  rejected, that call is all the invocation has done: the balance is as before and
  \<open>saveRoundInHistory\<close> is not called. When \<open>saveRoundInHistory\<close> is rejected, the bet
  strategy is rejected with the same value, after one call of it. When
  \<open>isClaimableRound\<close> or \<open>claimRewards\<close> is rejected, so is \<open>claimStrategy\<close>.
\<close>

theorem rejections_propagate:
  "(placeBet d m (parseFromUsdToCrypto m (getBetAmount m)) epoch = Inl e \<longrightarrow>
      betStrategy d m epoch w =
        (Inl e, w\<lparr>calls := calls w @ [placeBetCall d (parseFromUsdToCrypto m (getBetAmount m)) epoch]\<rparr>))
   \<and> (placeBet d m (parseFromUsdToCrypto m (getBetAmount m)) epoch = Inr receipt
      \<and> parseTransactionReceipt (formatUnit m) receipt = Inr outcome
      \<and> formatUnit m (Some epoch) None = Inr round'
      \<and> saveRoundInHistory m
           [\<lparr>round = round', betAmount = parseFromUsdToCrypto m (getBetAmount m), bet = d,
             betExecuted = transaction.betExecuted outcome,
             txGasFee = transaction.txGasFee outcome\<rparr>] = Inl e \<longrightarrow>
      fst (betStrategy d m epoch w) = Inl e
      \<and> filter historyCall (newCalls w (snd (betStrategy d m epoch w))) =
          [SaveRoundInHistory
             [\<lparr>round = round', betAmount = parseFromUsdToCrypto m (getBetAmount m), bet = d,
               betExecuted = transaction.betExecuted outcome,
               txGasFee = transaction.txGasFee outcome\<rparr>]])
   \<and> (CLAIM_REWARDS w \<and> isClaimableRound m epoch = Inl e \<longrightarrow>
      claimStrategy m epoch w = (Inl e, w\<lparr>calls := calls w @ [IsClaimableRound epoch]\<rparr>))
   \<and> (CLAIM_REWARDS w \<and> isClaimableRound m epoch = Inr True \<and> claimRewards m [epoch] = Inl e \<longrightarrow>
      claimStrategy m epoch w =
        (Inl e, w\<lparr>calls := calls w @ [IsClaimableRound epoch, ClaimRewards [epoch]]\<rparr>))"
proof (intro conjI impI)
  assume "placeBet d m (parseFromUsdToCrypto m (getBetAmount m)) epoch = Inl e"
  then show "betStrategy d m epoch w =
        (Inl e, w\<lparr>calls := calls w @ [placeBetCall d (parseFromUsdToCrypto m (getBetAmount m)) epoch]\<rparr>)"
    by (rule bet_rejected)
next
  assume a: "placeBet d m (parseFromUsdToCrypto m (getBetAmount m)) epoch = Inr receipt
      \<and> parseTransactionReceipt (formatUnit m) receipt = Inr outcome
      \<and> formatUnit m (Some epoch) None = Inr round'
      \<and> saveRoundInHistory m
           [\<lparr>round = round', betAmount = parseFromUsdToCrypto m (getBetAmount m), bet = d,
             betExecuted = transaction.betExecuted outcome,
             txGasFee = transaction.txGasFee outcome\<rparr>] = Inl e"
  then have r: "placeBet d m (parseFromUsdToCrypto m (getBetAmount m)) epoch = Inr receipt"
    and t: "parseTransactionReceipt (formatUnit m) receipt = Inr outcome"
    by simp_all
  from a show "fst (betStrategy d m epoch w) = Inl e"
    unfolding bet_parsed [OF r t] by (simp add: Let_def)
  from a show "filter historyCall (newCalls w (snd (betStrategy d m epoch w))) =
          [SaveRoundInHistory
             [\<lparr>round = round', betAmount = parseFromUsdToCrypto m (getBetAmount m), bet = d,
               betExecuted = transaction.betExecuted outcome,
               txGasFee = transaction.txGasFee outcome\<rparr>]]"
    unfolding bet_parsed [OF r t] by (cases d) (simp_all add: Let_def newCalls_def)
next
  assume "CLAIM_REWARDS w \<and> isClaimableRound m epoch = Inl e"
  then show "claimStrategy m epoch w = (Inl e, w\<lparr>calls := calls w @ [IsClaimableRound epoch]\<rparr>)"
    by (simp add: claim_enabled)
next
  assume "CLAIM_REWARDS w \<and> isClaimableRound m epoch = Inr True \<and> claimRewards m [epoch] = Inl e"
  then show "claimStrategy m epoch w =
        (Inl e, w\<lparr>calls := calls w @ [IsClaimableRound epoch, ClaimRewards [epoch]]\<rparr>)"
    by (simp add: claim_enabled)
qed

theorem rejections_propagate_witness:
  "placeBet BET_DOWN offlineModules
     (parseFromUsdToCrypto offlineModules (getBetAmount offlineModules)) 7 = Inl (Rejected ''network'')
   \<and> betStrategy BET_DOWN offlineModules 7 exampleBot =
       (Inl (Rejected ''network''), exampleBot\<lparr>calls := [BetDown (1 / 30) 7]\<rparr>)
   \<and> placeBet BET_DOWN diskFullModules
       (parseFromUsdToCrypto diskFullModules (getBetAmount diskFullModules)) 7 = Inr exampleReceipt
   \<and> parseTransactionReceipt (formatUnit diskFullModules) exampleReceipt =
       Inr \<lparr>transaction.betExecuted = True, transaction.txGasFee = 105 / 1000000\<rparr>
   \<and> formatUnit diskFullModules (Some 7) None = Inr 7
   \<and> saveRoundInHistory diskFullModules
        [\<lparr>round = 7, betAmount = 1 / 30, bet = BET_DOWN, betExecuted = True,
          txGasFee = 105 / 1000000\<rparr>] = Inl (Rejected ''disk full'')
   \<and> fst (betStrategy BET_DOWN diskFullModules 7 exampleBot) = Inl (Rejected ''disk full'')
   \<and> CLAIM_REWARDS exampleBot
   \<and> isClaimableRound offlineModules 7 = Inl (Rejected ''network'')
   \<and> claimStrategy offlineModules 7 exampleBot =
       (Inl (Rejected ''network''), exampleBot\<lparr>calls := [IsClaimableRound 7]\<rparr>)
   \<and> isClaimableRound unclaimableModules 7 = Inr True
   \<and> claimRewards unclaimableModules [7] = Inl (Rejected ''reverted'')
   \<and> claimStrategy unclaimableModules 7 exampleBot =
       (Inl (Rejected ''reverted''), exampleBot\<lparr>calls := [IsClaimableRound 7, ClaimRewards [7]]\<rparr>)"
proof -
  let ?row = "\<lparr>round = 7, betAmount = 1 / 30, bet = BET_DOWN, betExecuted = True,
               txGasFee = 105 / 1000000\<rparr> :: rat betRecord"
  let ?outcome = "\<lparr>transaction.betExecuted = True, transaction.txGasFee = 105 / 1000000\<rparr> :: rat transaction"
  have h1: "placeBet BET_DOWN offlineModules
     (parseFromUsdToCrypto offlineModules (getBetAmount offlineModules)) 7 = Inl (Rejected ''network'')"
    by (simp add: offlineModules_def)
  have h2a: "placeBet BET_DOWN diskFullModules
     (parseFromUsdToCrypto diskFullModules (getBetAmount diskFullModules)) 7 = Inr exampleReceipt"
    by (simp add: diskFullModules_def exampleModules_def)
  have h2b: "parseTransactionReceipt (formatUnit diskFullModules) exampleReceipt = Inr ?outcome"
    using parse_example [of 0 1] by (simp add: diskFullModules_def exampleModules_def exampleReceipt_def)
  have h2c: "formatUnit diskFullModules (Some 7) None = Inr 7"
    by (simp add: diskFullModules_def exampleModules_def specFormatUnit_no_unit)
  have h2d: "saveRoundInHistory diskFullModules [?row] = Inl (Rejected ''disk full'')"
    by (simp add: diskFullModules_def)
  have h2d': "saveRoundInHistory diskFullModules
           [\<lparr>round = 7, betAmount = parseFromUsdToCrypto diskFullModules (getBetAmount diskFullModules),
             bet = BET_DOWN, betExecuted = transaction.betExecuted ?outcome,
             txGasFee = transaction.txGasFee ?outcome\<rparr>] = Inl (Rejected ''disk full'')"
    by (simp add: diskFullModules_def)
  have h3: "CLAIM_REWARDS exampleBot" by (simp add: exampleBot_def)
  have h3b: "isClaimableRound offlineModules 7 = Inl (Rejected ''network'')"
    by (simp add: offlineModules_def)
  have h4a: "isClaimableRound unclaimableModules 7 = Inr True"
    by (simp add: unclaimableModules_def exampleModules_def)
  have h4b: "claimRewards unclaimableModules [7] = Inl (Rejected ''reverted'')"
    by (simp add: unclaimableModules_def)
  from rejections_propagate [of BET_DOWN offlineModules 7 "Rejected ''network''" exampleBot] h1
  have c1: "betStrategy BET_DOWN offlineModules 7 exampleBot =
       (Inl (Rejected ''network''), exampleBot\<lparr>calls := [BetDown (1 / 30) 7]\<rparr>)"
    by (simp add: offlineModules_def exampleModules_def exampleBot_def)
  from rejections_propagate
    [of BET_DOWN diskFullModules 7 "Rejected ''disk full''" exampleBot exampleReceipt ?outcome 7]
    h2a h2b h2c h2d'
  have c2: "fst (betStrategy BET_DOWN diskFullModules 7 exampleBot) = Inl (Rejected ''disk full'')"
    by blast
  from rejections_propagate [of BET_DOWN offlineModules 7 "Rejected ''network''" exampleBot] h3 h3b
  have c3: "claimStrategy offlineModules 7 exampleBot =
       (Inl (Rejected ''network''), exampleBot\<lparr>calls := [IsClaimableRound 7]\<rparr>)"
    by (simp add: exampleBot_def)
  from rejections_propagate [of BET_DOWN unclaimableModules 7 "Rejected ''reverted''" exampleBot] h3 h4a h4b
  have c4: "claimStrategy unclaimableModules 7 exampleBot =
       (Inl (Rejected ''reverted''), exampleBot\<lparr>calls := [IsClaimableRound 7, ClaimRewards [7]]\<rparr>)"
    by (simp add: exampleBot_def)
  from h1 c1 h2a h2b h2c h2d c2 h3 h3b c3 h4a h4b c4 show ?thesis by (intro conjI)
qed

text \<open>
  C10. When \<open>betUp\<close> answers as \<open>betDown\<close> does on the amount and the epoch,
  \<open>betUpStrategy\<close> leaves the state \<open>betDownStrategy\<close> leaves, flags and balance
  included, but for the calls: those of one are those of the other with \<open>betUp\<close> for
  \<open>betDown\<close> and \<open>BET_UP\<close> for \<open>BET_DOWN\<close> in the saved row, and the other way round.
  Where both complete they return the same Boolean.
\<close>

theorem bet_strategies_mirror:
  assumes "betUp m (parseFromUsdToCrypto m (getBetAmount m)) epoch =
           betDown m (parseFromUsdToCrypto m (getBetAmount m)) epoch"
  shows "snd (betUpStrategy m epoch w) =
           (snd (betDownStrategy m epoch w))
             \<lparr>calls := calls w @ map towardsUp (newCalls w (snd (betDownStrategy m epoch w)))\<rparr>
       \<and> newCalls w (snd (betDownStrategy m epoch w)) =
           map towardsDown (newCalls w (snd (betUpStrategy m epoch w)))
       \<and> (\<forall>b b'. fst (betDownStrategy m epoch w) = Inr b \<and> fst (betUpStrategy m epoch w) = Inr b'
            \<longrightarrow> b' = b)"
proof (cases "betDown m (parseFromUsdToCrypto m (getBetAmount m)) epoch")
  case (Inl e)
  then have "placeBet BET_DOWN m (parseFromUsdToCrypto m (getBetAmount m)) epoch = Inl e"
    and "placeBet BET_UP m (parseFromUsdToCrypto m (getBetAmount m)) epoch = Inl e"
    using assms by simp_all
  from bet_rejected [OF this(1), of w] bet_rejected [OF this(2), of w]
  show ?thesis by (simp add: newCalls_def)
next
  case (Inr receipt)
  then have down: "placeBet BET_DOWN m (parseFromUsdToCrypto m (getBetAmount m)) epoch = Inr receipt"
    and up: "placeBet BET_UP m (parseFromUsdToCrypto m (getBetAmount m)) epoch = Inr receipt"
    using assms by simp_all
  show ?thesis
  proof (cases "parseTransactionReceipt (formatUnit m) receipt")
    case (Inl e)
    from bet_unparsed [OF down this, of w] bet_unparsed [OF up this, of w]
    show ?thesis by (simp add: newCalls_def)
  next
    case (Inr t)
    from bet_parsed [OF down this, of w] bet_parsed [OF up this, of w]
    show ?thesis
      by (simp add: newCalls_def Let_def split: sum.splits)
  qed
qed

theorem bet_strategies_mirror_witness:
  "betUp mirroredModules (parseFromUsdToCrypto mirroredModules (getBetAmount mirroredModules)) 7 =
   betDown mirroredModules (parseFromUsdToCrypto mirroredModules (getBetAmount mirroredModules)) 7
   \<and> fst (betDownStrategy mirroredModules 7 exampleBot) = Inr True
   \<and> fst (betUpStrategy mirroredModules 7 exampleBot) = Inr True
   \<and> simulationBalance (snd (betUpStrategy mirroredModules 7 exampleBot)) =
       simulationBalance (snd (betDownStrategy mirroredModules 7 exampleBot))
   \<and> newCalls exampleBot (snd (betUpStrategy mirroredModules 7 exampleBot)) =
       map towardsUp (newCalls exampleBot (snd (betDownStrategy mirroredModules 7 exampleBot)))"
proof -
  let ?down = "betDownStrategy mirroredModules 7 exampleBot"
  let ?up = "betUpStrategy mirroredModules 7 exampleBot"
  have same: "betUp mirroredModules (parseFromUsdToCrypto mirroredModules (getBetAmount mirroredModules)) 7 =
    betDown mirroredModules (parseFromUsdToCrypto mirroredModules (getBetAmount mirroredModules)) 7"
    by (simp add: mirroredModules_def)
  have r: "placeBet BET_DOWN mirroredModules
             (parseFromUsdToCrypto mirroredModules (getBetAmount mirroredModules)) 7 = Inr exampleReceipt"
    and r': "placeBet BET_UP mirroredModules
             (parseFromUsdToCrypto mirroredModules (getBetAmount mirroredModules)) 7 = Inr exampleReceipt"
    by (simp_all add: mirroredModules_def exampleModules_def)
  have t: "parseTransactionReceipt (formatUnit mirroredModules) exampleReceipt =
             Inr \<lparr>transaction.betExecuted = True, transaction.txGasFee = 105 / 1000000\<rparr>"
    using parse_example [of 0 1]
    by (simp add: mirroredModules_def exampleModules_def exampleReceipt_def)
  have fd: "fst ?down = Inr True"
    using bet_parsed [OF r t, of exampleBot]
    by (simp add: mirroredModules_def exampleModules_def specFormatUnit_no_unit Let_def)
  have fu: "fst ?up = Inr True"
    using bet_parsed [OF r' t, of exampleBot]
    by (simp add: mirroredModules_def exampleModules_def specFormatUnit_no_unit Let_def)
  note m = bet_strategies_mirror [OF same, of exampleBot]
  from m have s: "snd ?up = (snd ?down)\<lparr>calls := calls exampleBot @ map towardsUp (newCalls exampleBot (snd ?down))\<rparr>"
    by (rule conjunct1)
  have b: "simulationBalance (snd ?up) = simulationBalance (snd ?down)"
    by (subst s) simp
  have c: "newCalls exampleBot (snd ?up) = map towardsUp (newCalls exampleBot (snd ?down))"
    by (subst s) (simp add: newCalls_def exampleBot_def)
  from same fd fu b c show ?thesis by (intro conjI)
qed

end
